theory Spec2Isabelle
  imports Complex_Main
begin

section \<open>NumPy arrays\<close>

text \<open>
  An n-dimensional array is its shape together with its elements in C (row-major) order,
  which is how NumPy and zarr lay out the arrays that \<^verbatim>\<open>app.py\<close> handles. Every array
  the libraries hand out holds exactly as many elements as its shape announces.
\<close>

record 'a ndarray =
  shape :: "nat list"
  data :: "'a list"

definition wf_ndarray :: "'a ndarray \<Rightarrow> bool" where
  "wf_ndarray a \<longleftrightarrow> length (data a) = prod_list (shape a)"

datatype py_error =
    ValueError string | IndexError string | AttributeError string | AxisError string

text \<open>Position of a multi-index in the flat data, and back (C order).\<close>

fun ravel_multi_index :: "nat list \<Rightarrow> nat list \<Rightarrow> nat" where
  "ravel_multi_index (d # ds) (j # js) = j * prod_list ds + ravel_multi_index ds js"
| "ravel_multi_index _ _ = 0"

fun unravel_index :: "nat list \<Rightarrow> nat \<Rightarrow> nat list" where
  "unravel_index [] i = []"
| "unravel_index (d # ds) i = (i div prod_list ds) # unravel_index ds (i mod prod_list ds)"

definition valid_index :: "nat list \<Rightarrow> nat list \<Rightarrow> bool" where
  "valid_index s js \<longleftrightarrow> list_all2 (\<lambda>j d. j < d) js s"

text \<open>
  \<^verbatim>\<open>np.transpose(a)\<close> without an axes argument reverses the axes: the element at
  multi-index \<open>J\<close> of the result is the element at \<open>rev J\<close> of \<open>a\<close>.
\<close>

definition np_transpose :: "'a ndarray \<Rightarrow> 'a ndarray" where
  "np_transpose a =
     \<lparr>shape = rev (shape a),
      data = map (\<lambda>i. data a ! ravel_multi_index (shape a) (rev (unravel_index (rev (shape a)) i)))
                 [0..<prod_list (shape a)]\<rparr>"

text \<open>\<^verbatim>\<open>a.reshape(newshape)\<close>: the element count must not change.\<close>

definition np_reshape :: "'a ndarray \<Rightarrow> nat list \<Rightarrow> py_error + 'a ndarray" where
  "np_reshape a newshape =
     (if prod_list newshape = length (data a)
      then Inr \<lparr>shape = newshape, data = data a\<rparr>
      else Inl (ValueError ''cannot reshape array''))"

text \<open>\<^verbatim>\<open>a.shape[-1]\<close>\<close>

definition shape_last :: "'a ndarray \<Rightarrow> py_error + nat" where
  "shape_last a =
     (if shape a = [] then Inl (IndexError ''tuple index out of range'')
      else Inr (last (shape a)))"

text \<open>
  \<^verbatim>\<open>a.reshape(-1, F)\<close>: the unknown dimension can only be inferred when \<open>F\<close> is
  non-zero and divides the element count.
\<close>

definition reshape_rows :: "'a ndarray \<Rightarrow> nat \<Rightarrow> py_error + 'a ndarray" where
  "reshape_rows a F =
     (let n = length (data a) in
      if F = 0 \<or> n mod F \<noteq> 0 then Inl (ValueError ''cannot reshape array'')
      else Inr \<lparr>shape = [n div F, F], data = data a\<rparr>)"

text \<open>Row \<open>i\<close> of flat data whose rows have width \<open>F\<close>.\<close>

definition row_of :: "nat \<Rightarrow> 'a list \<Rightarrow> nat \<Rightarrow> 'a list" where
  "row_of F xs i = take F (drop (i * F) xs)"

text \<open>Positions at which a boolean array is true (\<^verbatim>\<open>np.flatnonzero\<close>).\<close>

definition np_flatnonzero :: "bool list \<Rightarrow> nat list" where
  "np_flatnonzero sel = filter (\<lambda>i. sel ! i) [0..<length sel]"

text \<open>\<^verbatim>\<open>xs[sel]\<close> on a one-dimensional array with a boolean mask.\<close>

definition np_compress :: "bool list \<Rightarrow> 'a list \<Rightarrow> py_error + 'a list" where
  "np_compress sel xs =
     (if length sel \<noteq> length xs
      then Inl (IndexError ''boolean index did not match indexed array along dimension 0'')
      else Inr (map snd (filter fst (zip sel xs))))"

text \<open>\<^verbatim>\<open>a[sel, :]\<close> on a two-dimensional array: the rows at which the mask is true.\<close>

definition take_rows :: "bool list \<Rightarrow> 'a ndarray \<Rightarrow> py_error + 'a ndarray" where
  "take_rows sel a =
     (case shape a of
        [n, F] \<Rightarrow>
          if length sel \<noteq> n
          then Inl (IndexError ''boolean index did not match indexed array along dimension 0'')
          else Inr \<lparr>shape = [length (np_flatnonzero sel), F],
                    data = concat (map (row_of F (data a)) (np_flatnonzero sel))\<rparr>
      | _ \<Rightarrow> Inl (IndexError ''too many indices for array''))"

text \<open>\<^verbatim>\<open>np.unique\<close>: the distinct values, ascending.\<close>

definition np_unique :: "int list \<Rightarrow> int list" where
  "np_unique xs = sort (remdups xs)"

text \<open>\<^verbatim>\<open>np.squeeze\<close>: axes of length one are dropped.\<close>

definition np_squeeze :: "'a ndarray \<Rightarrow> 'a ndarray" where
  "np_squeeze a = a\<lparr>shape := filter (\<lambda>d. d \<noteq> 1) (shape a)\<rparr>"

text \<open>
  A Python \<^verbatim>\<open>slice(start, stop)\<close> applied to an axis of length \<open>n\<close>: negative bounds
  count from the end, and both bounds are clipped to the axis.
\<close>

type_synonym py_slice = "int \<times> int"

definition slice_clip :: "nat \<Rightarrow> int \<Rightarrow> nat" where
  "slice_clip n v = (if v < 0 then nat (max (v + int n) 0) else min (nat v) n)"

definition slice_range :: "nat \<Rightarrow> py_slice \<Rightarrow> nat list" where
  "slice_range n s = [slice_clip n (fst s)..<slice_clip n (snd s)]"

fun slice_shape :: "nat list \<Rightarrow> py_slice list \<Rightarrow> nat list" where
  "slice_shape ds [] = ds"
| "slice_shape [] (s # sl) = []"
| "slice_shape (d # ds) (s # sl) = length (slice_range d s) # slice_shape ds sl"

fun slice_data :: "nat list \<Rightarrow> py_slice list \<Rightarrow> 'a list \<Rightarrow> 'a list" where
  "slice_data ds [] xs = xs"
| "slice_data [] (s # sl) xs = xs"
| "slice_data (d # ds) (s # sl) xs =
     concat (map (\<lambda>i. slice_data ds sl (row_of (prod_list ds) xs i)) (slice_range d s))"

text \<open>\<^verbatim>\<open>a[mask_idx]\<close> with a tuple of slices, one per leading axis.\<close>

definition np_getitem :: "'a ndarray \<Rightarrow> py_slice list \<Rightarrow> py_error + 'a ndarray" where
  "np_getitem a sl =
     (if length (shape a) < length sl then Inl (IndexError ''too many indices for array'')
      else Inr \<lparr>shape = slice_shape (shape a) sl, data = slice_data (shape a) sl (data a)\<rparr>)"

text \<open>
  \<^verbatim>\<open>np.concatenate(arrays, axis=1)\<close> on two-dimensional arrays: all must have the same
  number of rows; row \<open>i\<close> of the result is the rows \<open>i\<close> of the inputs, one after another.
\<close>

definition np_concatenate_axis1 :: "'a ndarray list \<Rightarrow> py_error + 'a ndarray" where
  "np_concatenate_axis1 arrs =
     (case arrs of
        [] \<Rightarrow> Inl (ValueError ''need at least one array to concatenate'')
      | a # rest \<Rightarrow>
          if list_all (\<lambda>b. length (shape b) = 2) arrs
             \<and> list_all (\<lambda>b. hd (shape b) = hd (shape a)) rest
          then Inr \<lparr>shape = [hd (shape a), sum_list (map (\<lambda>b. shape b ! 1) arrs)],
                    data = concat (map (\<lambda>i. concat (map (\<lambda>b. row_of (shape b ! 1) (data b) i) arrs))
                                       [0..<hd (shape a)])\<rparr>
          else Inl (ValueError
            ''all the input array dimensions except for the concatenation axis must match exactly''))"


section \<open>The classifier libraries\<close>

text \<open>
  A fitted scikit-learn or XGBoost classifier is opaque to \<^verbatim>\<open>app.py\<close>. The program uses
  two things of it: the classes it was fitted on (\<^verbatim>\<open>clf.classes_\<close>) and
  \<^verbatim>\<open>clf.predict(X)\<close>, which maps an array of shape (N, F) to N class labels.
\<close>

record classifier =
  classes :: "int list"
  clf_predict :: "real ndarray \<Rightarrow> int list"

text \<open>The two ways \<^verbatim>\<open>fit_model\<close> calls into the libraries.\<close>

datatype fit_call =
    RandomForestFit "(int \<times> real) list" "real ndarray" "int list"
      \<comment> \<open>\<^verbatim>\<open>RandomForestClassifier(class_weight=weight_dict).fit(X, y)\<close>\<close>
  | XGBoostFit "real ndarray" "int list" "real option list"
      \<comment> \<open>\<^verbatim>\<open>XGBClassifier().fit(X, y, sample_weight=sample_weights)\<close>\<close>

fun fit_X :: "fit_call \<Rightarrow> real ndarray" where
  "fit_X (RandomForestFit w X y) = X"
| "fit_X (XGBoostFit X y sw) = X"

fun fit_y :: "fit_call \<Rightarrow> int list" where
  "fit_y (RandomForestFit w X y) = y"
| "fit_y (XGBoostFit X y sw) = y"

type_synonym learner = "fit_call \<Rightarrow> py_error + classifier"

text \<open>
  What the libraries guarantee of a fit that returns: the classifier's classes are the
  distinct training labels, and it predicts one of them for each row it is given.
\<close>

definition predict_contract :: "classifier \<Rightarrow> bool" where
  "predict_contract M \<longleftrightarrow>
     (\<forall>X. length (clf_predict M X) = hd (shape X) \<and>
          set (clf_predict M X) \<subseteq> set (classes M))"

definition fit_contract :: "learner \<Rightarrow> bool" where
  "fit_contract learn \<longleftrightarrow>
     (\<forall>c M. learn c = Inr M \<longrightarrow> classes M = np_unique (fit_y c) \<and> predict_contract M)"

text \<open>
  Modelled from the spec: \<^verbatim>\<open>sklearn.utils.class_weight.compute_class_weight\<close> is a library
  function whose code is not part of the repository. With the \<^verbatim>\<open>"balanced"\<close> scheme the
  weight of class \<open>c\<close> is \<open>N_total / (num_classes * count(c))\<close>, here in exact arithmetic.
\<close>

definition compute_class_weight_balanced :: "int list \<Rightarrow> int list \<Rightarrow> real list" where
  "compute_class_weight_balanced cls y =
     map (\<lambda>c. real (length y) / (real (length (np_unique y)) * real (count_list y c))) cls"

text \<open>
  \<^verbatim>\<open>skimage.future.predict_segmenter(features, clf)\<close> on a two-dimensional feature array:
  \<^verbatim>\<open>clf.predict(features)\<close> reshaped to \<^verbatim>\<open>features.shape[:-1]\<close>. Without a classifier
  the attribute lookup \<^verbatim>\<open>clf.predict\<close> fails.
\<close>

definition predict_segmenter :: "real ndarray \<Rightarrow> classifier option \<Rightarrow> py_error + int ndarray" where
  "predict_segmenter features clf =
     (case clf of
        None \<Rightarrow> Inl (AttributeError ''NoneType object has no attribute predict'')
      | Some M \<Rightarrow>
          (let predicted_labels = clf_predict M features in
           np_reshape \<lparr>shape = [length predicted_labels], data = predicted_labels\<rparr>
             (butlast (shape features))))"

section \<open>The application\<close>

text \<open>
  Work handed to the single-worker executor, each with the arguments bound at submission:
  a \<^verbatim>\<open>fit_model\<close> call with the keyword arguments of its \<^verbatim>\<open>on_model_fit\<close> callback, or
  a \<^verbatim>\<open>predict\<close> call (its callback is \<^verbatim>\<open>on_prediction\<close>).
\<close>

datatype task =
    FitModelTask "int ndarray" "real ndarray" string bool bool
  | PredictTask "real ndarray"

text \<open>
  The state of \<^verbatim>\<open>CryoCanvasApp\<close> that the fit/predict cycle reads and writes: the arrays
  of the store, the viewer's position, the widget's controls and status label, the model
  handle, and the executor's queue. The image is three-dimensional (Z, Y, X).
\<close>

record app =
  image_data :: "real ndarray"
  feature_data_skimage :: "real ndarray"
  feature_data_tomotwin :: "real ndarray"
  painting_data :: "int ndarray"
  prediction_layer_data :: "int ndarray"
  current_step :: "int \<times> int \<times> int"
  corner_pixels :: "(int \<times> int \<times> int) \<times> (int \<times> int \<times> int)"
  data_dropdown :: string
  model_dropdown :: string
  live_fit_checkbox :: bool
  live_pred_checkbox :: bool
  status :: string
  model :: "classifier option"
  executor :: "task list"

definition get_mask_idx :: "app \<Rightarrow> string \<Rightarrow> py_slice list" where
  "get_mask_idx self data_choice =
     (if data_choice = ''Whole Image''
      then map (\<lambda>sz. (0, int sz)) (shape (image_data self))
      else (case (current_step self, corner_pixels self) of
              ((c0, c1, c2), ((p00, p01, p02), (p10, p11, p12))) \<Rightarrow>
                [(c0, c0 + 1), (p01, p11), (p02, p12)]))"

definition get_active_image_and_labels ::
  "app \<Rightarrow> py_slice list \<Rightarrow> py_error + (real ndarray \<times> int ndarray)" where
  "get_active_image_and_labels self mask_idx =
     (case np_getitem (image_data self) mask_idx of
        Inl e \<Rightarrow> Inl e
      | Inr active_image \<Rightarrow>
          (case np_getitem (painting_data self) mask_idx of
             Inl e \<Rightarrow> Inl e
           | Inr active_labels \<Rightarrow> Inr (active_image, active_labels)))"

text \<open>One selected feature set, cut to the mask and flattened to rows.\<close>

definition masked_rows :: "real ndarray \<Rightarrow> py_slice list \<Rightarrow> py_error + real ndarray" where
  "masked_rows feature_data mask_idx =
     (case np_getitem feature_data mask_idx of
        Inl e \<Rightarrow> Inl e
      | Inr masked \<Rightarrow>
          (case shape_last feature_data of
             Inl e \<Rightarrow> Inl e
           | Inr F \<Rightarrow> reshape_rows masked F))"

definition get_features :: "app \<Rightarrow> py_slice list \<Rightarrow> bool \<Rightarrow> bool \<Rightarrow> py_error + real ndarray" where
  "get_features self mask_idx use_skimage_features use_tomotwin_features =
     (case (if use_skimage_features
            then (case masked_rows (feature_data_skimage self) mask_idx of
                    Inl e \<Rightarrow> Inl e | Inr f \<Rightarrow> Inr [f])
            else Inr []) of
        Inl e \<Rightarrow> Inl e
      | Inr features1 \<Rightarrow>
          (case (if use_tomotwin_features
                 then (case masked_rows (feature_data_tomotwin self) mask_idx of
                         Inl e \<Rightarrow> Inl e | Inr f \<Rightarrow> Inr (features1 @ [f]))
                 else Inr features1) of
             Inl e \<Rightarrow> Inl e
           | Inr features \<Rightarrow>
               if features \<noteq> [] then np_concatenate_axis1 features
               else Inl (ValueError ''No features selected for computation.'')))"

text \<open>
  \<^verbatim>\<open>_get_training_features_and_labels\<close> first builds the concatenated features with the
  same statements as \<^verbatim>\<open>_get_features\<close> (raising if no set is selected) and then
  chooses by the dropdown's text.
\<close>

definition get_training_features_and_labels ::
  "app \<Rightarrow> string \<Rightarrow> bool \<Rightarrow> bool \<Rightarrow> py_error + (real ndarray \<times> int ndarray)" where
  "get_training_features_and_labels self data_choice use_skimage_features use_tomotwin_features =
     (let mask_idx = get_mask_idx self data_choice in
      case get_features self mask_idx use_skimage_features use_tomotwin_features of
        Inl e \<Rightarrow> Inl e
      | Inr features \<Rightarrow>
          if data_choice = ''Current Displayed Region'' then
            (case get_features self mask_idx use_skimage_features use_tomotwin_features of
               Inl e \<Rightarrow> Inl e
             | Inr training_features \<Rightarrow>
                 (case get_active_image_and_labels self mask_idx of
                    Inl e \<Rightarrow> Inl e
                  | Inr (active_image, active_labels) \<Rightarrow>
                      Inr (training_features, np_squeeze active_labels)))
          else if data_choice = ''Whole Image'' then
            Inr (if use_skimage_features then feature_data_skimage self
                 else feature_data_tomotwin self,
                 np_squeeze (painting_data self))
          else Inl (ValueError (''Invalid data choice: '' @ data_choice)))"

text \<open>
  \<^verbatim>\<open>training_labels.shape == 0\<close> compares a tuple with an integer. Python's \<^verbatim>\<open>==\<close>
  between a tuple and an int is \<^verbatim>\<open>False\<close> whatever the tuple holds, and \<^verbatim>\<open>np.any\<close> of
  that single boolean is the boolean itself.
\<close>

definition py_tuple_eq_int :: "nat list \<Rightarrow> int \<Rightarrow> bool" where
  "py_tuple_eq_int t n = False"

definition np_any :: "bool \<Rightarrow> bool" where
  "np_any b = b"

definition on_data_change :: "app \<Rightarrow> py_error + app" where
  "on_data_change self =
     (let data_choice = data_dropdown self;
          live_fit = live_fit_checkbox self;
          live_prediction = live_pred_checkbox self;
          model_type = model_dropdown self;
          use_skimage_features = False;
          use_tomotwin_features = True
      in case get_training_features_and_labels self data_choice
                use_skimage_features use_tomotwin_features of
           Inl e \<Rightarrow> Inl e
         | Inr (training_features, training_labels) \<Rightarrow>
             if np_any (py_tuple_eq_int (shape training_labels) 0) then Inr self
             else if live_fit then
               Inr (self\<lparr>status := ''Fitting model ...'',
                         executor := executor self @
                           [FitModelTask training_labels training_features model_type
                              live_prediction use_skimage_features]\<rparr>)
             else Inr self)"

definition on_view_change :: "app \<Rightarrow> py_error + app" where
  "on_view_change self =
     (if data_dropdown self \<noteq> ''Whole Image'' then on_data_change self else Inr self)"

text \<open>
  \<^verbatim>\<open>fit_model\<close> up to the call into the classifier library: \<open>None\<close> is the early
  \<^verbatim>\<open>return None\<close>, otherwise the call that is made. The first statement logs
  \<^verbatim>\<open>np.unique(labels[:])\<close>, and \<^verbatim>\<open>labels[:]\<close> raises on an array without axes (the
  squeezed labels of a one-voxel region).
\<close>

definition fit_model_call :: "int ndarray \<Rightarrow> real ndarray \<Rightarrow> string \<Rightarrow> py_error + fit_call option" where
  "fit_model_call labels0 features model_type =
     (if shape labels0 = []
      then Inl (IndexError
        ''too many indices for array: array is 0-dimensional, but 1 were indexed'')
      else
      let labels = data labels0 in
      case shape_last features of
        Inl e \<Rightarrow> Inl e
      | Inr F \<Rightarrow>
      (case reshape_rows features F of
        Inl e \<Rightarrow> Inl e
      | Inr reshaped_features \<Rightarrow>
      (let valid_labels = map (\<lambda>l. 0 < l) labels in
       case take_rows valid_labels reshaped_features of
        Inl e \<Rightarrow> Inl e
      | Inr filtered_features \<Rightarrow>
      (case np_compress valid_labels labels of
        Inl e \<Rightarrow> Inl e
      | Inr kept \<Rightarrow>
      (let filtered_labels = map (\<lambda>l. l - 1) kept in
       if length filtered_labels = 0 then Inr None
       else
         let unique_labels = np_unique filtered_labels;
             class_weights = compute_class_weight_balanced unique_labels filtered_labels;
             weight_dict = zip unique_labels class_weights;
             sample_weights = map (map_of weight_dict) filtered_labels
         in if model_type = ''Random Forest''
            then Inr (Some (RandomForestFit weight_dict filtered_features filtered_labels))
            else if model_type = ''XGBoost''
            then Inr (Some (XGBoostFit filtered_features filtered_labels sample_weights))
            else Inl (ValueError (''Unsupported model type: '' @ model_type)))))))"

definition fit_model ::
  "learner \<Rightarrow> int ndarray \<Rightarrow> real ndarray \<Rightarrow> string \<Rightarrow> py_error + classifier option" where
  "fit_model learn labels features model_type =
     (case fit_model_call labels features model_type of
        Inl e \<Rightarrow> Inl e
      | Inr None \<Rightarrow> Inr None
      | Inr (Some c) \<Rightarrow> (case learn c of Inl e \<Rightarrow> Inl e | Inr clf \<Rightarrow> Inr (Some clf)))"

definition predict :: "app \<Rightarrow> real ndarray \<Rightarrow> py_error + int ndarray" where
  "predict self features =
     (case shape_last features of
        Inl e \<Rightarrow> Inl e
      | Inr F \<Rightarrow>
      (case reshape_rows features F of
        Inl e \<Rightarrow> Inl e
      | Inr X \<Rightarrow>
      (case predict_segmenter X (model self) of
        Inl e \<Rightarrow> Inl e
      | Inr out \<Rightarrow>
      (case np_reshape out (butlast (shape features)) of
        Inl e \<Rightarrow> Inl e
      | Inr r \<Rightarrow>
          (let prediction = r\<lparr>data := map (\<lambda>c. c + 1) (data r)\<rparr>
           in Inr (np_transpose prediction))))))"

text \<open>
  The completion callbacks run on the main thread with the finished task;
  \<^verbatim>\<open>task.result()\<close> raises again whatever the task raised. In
  \<^verbatim>\<open>on_model_fit\<close> the assignment \<^verbatim>\<open>self.model = model\<close> comes before the test
  \<^verbatim>\<open>live_prediction and self.model\<close>, in which a fitted classifier counts as true and
  \<^verbatim>\<open>None\<close> as false.
\<close>

definition on_model_fit :: "app \<Rightarrow> py_error + classifier option \<Rightarrow> bool \<Rightarrow> bool \<Rightarrow> py_error + app" where
  "on_model_fit self task live_prediction use_skimage_features =
     (case task of
        Inl e \<Rightarrow> Inl e
      | Inr fitted \<Rightarrow>
          (let self1 = self\<lparr>model := fitted\<rparr> in
           if live_prediction \<and> model self1 \<noteq> None then
             (let prediction_features =
                    (if use_skimage_features then feature_data_skimage self1
                     else feature_data_tomotwin self1)
              in Inr (self1\<lparr>status := ''Predicting labels ...'',
                           executor := executor self1 @ [PredictTask prediction_features]\<rparr>))
           else Inr self1))"

text \<open>
  \<^verbatim>\<open>update_class_distribution_charts\<close> only redraws the widget's figure, which is not
  part of the state kept here.
\<close>

definition on_prediction :: "app \<Rightarrow> py_error + int ndarray \<Rightarrow> py_error + app" where
  "on_prediction self task =
     (case task of
        Inl e \<Rightarrow> Inl e
      | Inr prediction \<Rightarrow>
          Inr (self\<lparr>prediction_layer_data := np_transpose prediction, status := ''Ready''\<rparr>))"

text \<open>
  The single worker takes the oldest task of the queue, runs it, and its completion
  callback runs with the outcome.
\<close>

definition run_task :: "learner \<Rightarrow> app \<Rightarrow> py_error + app" where
  "run_task learn self =
     (case executor self of
        [] \<Rightarrow> Inr self
      | FitModelTask labels features model_type live_prediction use_skimage_features # rest \<Rightarrow>
          on_model_fit (self\<lparr>executor := rest\<rparr>) (fit_model learn labels features model_type)
            live_prediction use_skimage_features
      | PredictTask features # rest \<Rightarrow>
          on_prediction (self\<lparr>executor := rest\<rparr>) (predict (self\<lparr>executor := rest\<rparr>) features))"

text \<open>
  The (N, F) view \<^verbatim>\<open>features.reshape(-1, features.shape[-1])\<close> of a feature array, as
  \<^verbatim>\<open>fit_model\<close> and \<^verbatim>\<open>predict\<close> hand it to the libraries.
\<close>

definition rows_view :: "real ndarray \<Rightarrow> real ndarray" where
  "rows_view features =
     \<lparr>shape = [length (data features) div last (shape features), last (shape features)],
      data = data features\<rparr>"

section \<open>Background estimation\<close>









section \<open>A small store and a stand-in learner for the examples\<close>

text \<open>
  A learner that honours the libraries' contract: it refuses an empty training set, and
  the classifier it returns predicts the largest training class for a row whose first
  feature is positive and the smallest one otherwise.
\<close>

definition stub_learner :: learner where
  "stub_learner c =
     (if fit_y c = [] then Inl (ValueError ''Found array with 0 sample(s)'')
      else Inr \<lparr>classes = np_unique (fit_y c),
                clf_predict = (\<lambda>X. map (\<lambda>i. if 0 < hd (row_of (shape X ! 1) (data X) i)
                                            then last (np_unique (fit_y c))
                                            else hd (np_unique (fit_y c)))
                                      [0..<hd (shape X)])\<rparr>)"

text \<open>
  A volume of shape (1, 2, 3) as the program finds it at start-up (widget defaults, no
  model, idle executor), with one feature per voxel in each feature set.
\<close>

definition small_app :: app where
  "small_app =
     \<lparr>image_data = \<lparr>shape = [1, 2, 3], data = [0, 0, 0, 0, 0, 0]\<rparr>,
      feature_data_skimage = \<lparr>shape = [1, 2, 3, 1], data = [0, 0, 0, 0, 0, 0]\<rparr>,
      feature_data_tomotwin = \<lparr>shape = [1, 2, 3, 1], data = [0, 1, 2, 0, -1, 3]\<rparr>,
      painting_data = \<lparr>shape = [1, 2, 3], data = [1, 3, 0, 0, 1, 3]\<rparr>,
      prediction_layer_data = \<lparr>shape = [1, 2, 3], data = [0, 0, 0, 0, 0, 0]\<rparr>,
      current_step = (0, 0, 0),
      corner_pixels = ((0, 0, 0), (0, 2, 3)),
      data_dropdown = ''Whole Image'',
      model_dropdown = ''Random Forest'',
      live_fit_checkbox = True,
      live_pred_checkbox = True,
      status = ''Ready'',
      model = None,
      executor = []\<rparr>"






text \<open>The classifier that the stand-in learner returns for training labels 0 and 2.\<close>

definition small_model :: classifier where
  "small_model =
     \<lparr>classes = [0, 2],
      clf_predict = (\<lambda>X. map (\<lambda>i. if 0 < hd (row_of (shape X ! 1) (data X) i) then 2 else 0)
                            [0..<hd (shape X)])\<rparr>"

section \<open>Lemmas on index arithmetic\<close>

lemma ravel_less:
  "valid_index s js \<Longrightarrow> ravel_multi_index s js < prod_list s"
  unfolding valid_index_def
proof (induction js s rule: list_all2_induct)
  case Nil
  then show ?case by simp
next
  case (Cons j js d ds)
  have "j * prod_list ds + ravel_multi_index ds js < Suc j * prod_list ds"
    using Cons.IH by simp
  also have "\<dots> \<le> d * prod_list ds"
    using Cons.hyps(1) by (intro mult_le_mono1) simp
  finally show ?case by simp
qed

lemma unravel_valid:
  "i < prod_list s \<Longrightarrow> valid_index s (unravel_index s i)"
proof (induction s arbitrary: i)
  case Nil
  then show ?case by (simp add: valid_index_def)
next
  case (Cons d ds)
  from Cons.prems have pos: "0 < prod_list ds"
    by (cases "prod_list ds = 0") auto
  from Cons.prems have "i div prod_list ds < d"
    using pos by (simp add: less_mult_imp_div_less mult.commute)
  moreover have "valid_index ds (unravel_index ds (i mod prod_list ds))"
    using pos by (intro Cons.IH) simp
  ultimately show ?case by (simp add: valid_index_def)
qed

lemma ravel_unravel:
  "i < prod_list s \<Longrightarrow> ravel_multi_index s (unravel_index s i) = i"
proof (induction s arbitrary: i)
  case Nil
  then show ?case by simp
next
  case (Cons d ds)
  from Cons.prems have pos: "0 < prod_list ds"
    by (cases "prod_list ds = 0") auto
  have "ravel_multi_index ds (unravel_index ds (i mod prod_list ds)) = i mod prod_list ds"
    using pos by (intro Cons.IH) simp
  then show ?case by simp
qed

lemma unravel_ravel:
  "valid_index s js \<Longrightarrow> unravel_index s (ravel_multi_index s js) = js"
  unfolding valid_index_def
proof (induction js s rule: list_all2_induct)
  case Nil
  then show ?case by simp
next
  case (Cons j js d ds)
  have r: "ravel_multi_index ds js < prod_list ds"
    using Cons.hyps(2) by (simp add: ravel_less valid_index_def)
  then show ?case using Cons.IH by simp
qed

lemma valid_index_rev:
  "valid_index s js \<Longrightarrow> valid_index (rev s) (rev js)"
  by (simp add: valid_index_def)

lemma np_transpose_shape: "shape (np_transpose a) = rev (shape a)"
  by (simp add: np_transpose_def)

lemma np_transpose_wf: "wf_ndarray (np_transpose a)"
  by (simp add: np_transpose_def wf_ndarray_def)

lemma np_transpose_involution:
  assumes "wf_ndarray a"
  shows "np_transpose (np_transpose a) = a"
proof -
  let ?s = "shape a"
  have len: "length (data a) = prod_list ?s"
    using assms by (simp add: wf_ndarray_def)
  have el: "data a ! ravel_multi_index ?s (rev (unravel_index (rev ?s)
              (ravel_multi_index (rev ?s) (rev (unravel_index ?s i))))) = data a ! i"
    if "i < prod_list ?s" for i
  proof -
    have v: "valid_index (rev ?s) (rev (unravel_index ?s i))"
      using that by (intro valid_index_rev unravel_valid)
    show ?thesis
      using that by (simp add: unravel_ravel [OF v] ravel_unravel)
  qed
  have lt: "ravel_multi_index (rev ?s) (rev (unravel_index ?s i)) < prod_list ?s"
    if "i < prod_list ?s" for i
    using ravel_less [OF valid_index_rev [OF unravel_valid [OF that]]] by simp
  have "data (np_transpose (np_transpose a)) = data a"
    by (rule nth_equalityI) (simp_all add: np_transpose_def len el lt)
  moreover have "shape (np_transpose (np_transpose a)) = shape a"
    by (simp add: np_transpose_def)
  moreover have "ndarray.more (np_transpose (np_transpose a)) = ndarray.more a"
    by (simp add: np_transpose_def)
  ultimately show ?thesis by simp
qed

section \<open>Prediction\<close>

lemma prod_list_butlast:
  "s \<noteq> [] \<Longrightarrow> prod_list (butlast s) * last s = prod_list s"
  by (induction s) (auto simp: mult.assoc)

lemma predict_InrD:
  assumes "predict self features = Inr p"
  shows "\<exists>M. model self = Some M \<and> shape features \<noteq> [] \<and>
           prod_list (butlast (shape features)) = length (clf_predict M (rows_view features)) \<and>
           p = np_transpose \<lparr>shape = butlast (shape features),
                 data = map (\<lambda>c. c + 1) (clf_predict M (rows_view features))\<rparr>"
  using assms
  by (auto simp: predict_def shape_last_def reshape_rows_def predict_segmenter_def np_reshape_def
        rows_view_def Let_def split: if_splits sum.splits option.splits)

lemma predict_total:
  assumes "model self = Some M" and "shape features \<noteq> []" and "wf_ndarray features"
    and "0 < last (shape features)"
    and "length (clf_predict M (rows_view features)) = hd (shape (rows_view features))"
  shows "predict self features =
           Inr (np_transpose \<lparr>shape = butlast (shape features),
                 data = map (\<lambda>c. c + 1) (clf_predict M (rows_view features))\<rparr>)"
proof -
  have n: "length (data features) = prod_list (butlast (shape features)) * last (shape features)"
    using assms(2,3) by (simp add: wf_ndarray_def prod_list_butlast)
  have d: "length (data features) div last (shape features) = prod_list (butlast (shape features))"
    using assms(4) n by simp
  have m: "length (data features) mod last (shape features) = 0"
    using n by simp
  have rv: "\<lparr>shape = [prod_list (butlast (shape features)), last (shape features)],
      data = data features\<rparr> = rows_view features"
    by (simp add: rows_view_def d)
  show ?thesis
    using assms(1,2,4,5) m d
    by (simp add: predict_def shape_last_def reshape_rows_def predict_segmenter_def np_reshape_def
        Let_def rv) (simp add: rows_view_def)
qed

lemma np_transpose_data_subset:
  assumes "wf_ndarray a"
  shows "set (data (np_transpose a)) \<subseteq> set (data a)"
proof
  fix v assume "v \<in> set (data (np_transpose a))"
  then obtain i where i: "i < prod_list (shape a)"
    and v: "v = data a ! ravel_multi_index (shape a) (rev (unravel_index (rev (shape a)) i))"
    by (auto simp: np_transpose_def)
  have "i < prod_list (rev (shape a))" using i by simp
  from valid_index_rev [OF unravel_valid [OF this]]
  have "ravel_multi_index (shape a) (rev (unravel_index (rev (shape a)) i)) < prod_list (shape a)"
    using ravel_less by fastforce
  then show "v \<in> set (data a)"
    using assms v by (simp add: wf_ndarray_def)
qed

lemma small_model_contract: "predict_contract small_model"
  by (auto simp: predict_contract_def small_model_def)

lemma small_predict:
  "predict (small_app\<lparr>model := Some small_model\<rparr>) (feature_data_tomotwin small_app)
     = Inr \<lparr>shape = [3, 2, 1], data = [1, 1, 3, 1, 3, 3]\<rparr>"
  by code_simp

lemma set_np_unique: "set (np_unique xs) = set xs"
  by (simp add: np_unique_def)

lemma stub_learner_contract: "fit_contract stub_learner"
proof -
  have "hd (np_unique y) \<in> set y \<and> last (np_unique y) \<in> set y" if "y \<noteq> []" for y
  proof -
    from that have "np_unique y \<noteq> []"
      using set_np_unique [of y] by (metis set_empty)
    then show ?thesis
      using hd_in_set [of "np_unique y"] last_in_set [of "np_unique y"]
      by (simp add: set_np_unique)
  qed
  then show ?thesis
    by (auto simp: fit_contract_def predict_contract_def stub_learner_def set_np_unique
        split: if_splits)
qed

lemma compress_filter:
  "map snd (filter fst (zip (map P xs) xs)) = filter P xs"
  by (induction xs) auto

lemma fit_model_call_y:
  assumes "fit_model_call labels features model_type = Inr (Some c)"
  shows "fit_y c = map (\<lambda>l. l - 1) (filter (\<lambda>l. 0 < l) (data labels))"
  using assms
  by (auto simp: fit_model_call_def np_compress_def compress_filter Let_def
        split: sum.splits if_splits)

lemma small_fit:
  "fit_model stub_learner (np_squeeze (painting_data small_app))
     (feature_data_tomotwin small_app) ''Random Forest'' = Inr (Some small_model)"
  by (simp add: fit_model_def fit_model_call_def small_app_def np_squeeze_def shape_last_def
      reshape_rows_def take_rows_def np_flatnonzero_def np_compress_def stub_learner_def
      small_model_def np_unique_def Let_def cong: if_cong)

lemma small_tomotwin_shape: "shape (feature_data_tomotwin small_app) = [1, 2, 3, 1]"
  by (simp add: small_app_def)

lemma small_rows_predict:
  "clf_predict small_model (rows_view (feature_data_tomotwin small_app)) = [0, 2, 2, 0, 0, 2]"
  by code_simp

text \<open>
  C10: whenever \<^verbatim>\<open>predict\<close> returns, what \<^verbatim>\<open>on_prediction\<close> stores in the prediction
  layer is the classifier's flat class indices plus one in the feature array's spatial
  shape and axis order: the transpose in \<^verbatim>\<open>predict\<close> and the one in the callback cancel.
\<close>

theorem prediction_layer_restores_axis_order:
  assumes "predict self features = Inr prediction"
  shows "\<exists>M. model self = Some M \<and>
           (let R = \<lparr>shape = butlast (shape features),
                     data = map (\<lambda>c. c + 1) (clf_predict M (rows_view features))\<rparr>
            in prediction = np_transpose R \<and> np_transpose prediction = R \<and>
               on_prediction self' (Inr prediction)
                 = Inr (self'\<lparr>prediction_layer_data := R, status := ''Ready''\<rparr>))"
proof -
  from predict_InrD [OF assms] obtain M where M: "model self = Some M"
    and len: "prod_list (butlast (shape features)) = length (clf_predict M (rows_view features))"
    and p: "prediction = np_transpose \<lparr>shape = butlast (shape features),
                 data = map (\<lambda>c. c + 1) (clf_predict M (rows_view features))\<rparr>"
    by blast
  let ?R = "\<lparr>shape = butlast (shape features),
              data = map (\<lambda>c. c + 1) (clf_predict M (rows_view features))\<rparr>"
  have "wf_ndarray ?R" using len by (simp add: wf_ndarray_def)
  then have cancel: "np_transpose prediction = ?R"
    using p by (simp add: np_transpose_involution)
  show ?thesis
    using M p cancel by (auto simp: Let_def on_prediction_def)
qed

theorem prediction_layer_restores_axis_order_witness:
  "predict (small_app\<lparr>model := Some small_model\<rparr>) (feature_data_tomotwin small_app)
     = Inr \<lparr>shape = [3, 2, 1], data = [1, 1, 3, 1, 3, 3]\<rparr> \<and>
   on_prediction (small_app\<lparr>model := Some small_model\<rparr>)
       (Inr \<lparr>shape = [3, 2, 1], data = [1, 1, 3, 1, 3, 3]\<rparr>)
     = Inr (small_app\<lparr>model := Some small_model,
              prediction_layer_data := \<lparr>shape = [1, 2, 3], data = [1, 3, 3, 1, 1, 3]\<rparr>,
              status := ''Ready''\<rparr>)"
proof -
  let ?S = "small_app\<lparr>model := Some small_model\<rparr>"
  let ?F = "feature_data_tomotwin small_app"
  from prediction_layer_restores_axis_order [OF small_predict, of ?S]
  obtain M where M: "model ?S = Some M"
    and stored: "on_prediction ?S (Inr \<lparr>shape = [3, 2, 1], data = [1, 1, 3, 1, 3, 3]\<rparr>)
      = Inr (?S\<lparr>prediction_layer_data :=
                 \<lparr>shape = butlast (shape ?F),
                  data = map (\<lambda>c. c + 1) (clf_predict M (rows_view ?F))\<rparr>,
               status := ''Ready''\<rparr>)"
    unfolding Let_def by blast
  from M have "M = small_model" by simp
  with stored small_predict show ?thesis
    by (simp add: small_rows_predict small_tomotwin_shape)
qed

text \<open>
  C4, as the code has it: for a classifier that answers one label per row and a feature
  array of shape (Z, Y, X, F) with at least one feature, \<^verbatim>\<open>predict\<close> returns, and the
  array it returns has shape (X, Y, Z): the spatial axes reversed.
\<close>

theorem predict_shape_is_reversed:
  assumes "model self = Some M" and "predict_contract M"
    and "shape features = [Z, Y, X, F]" and "wf_ndarray features" and "0 < F"
  shows "\<exists>p. predict self features = Inr p \<and> shape p = [X, Y, Z]"
proof -
  have "predict self features =
          Inr (np_transpose \<lparr>shape = butlast (shape features),
                 data = map (\<lambda>c. c + 1) (clf_predict M (rows_view features))\<rparr>)"
    using assms by (intro predict_total) (simp_all add: predict_contract_def)
  then show ?thesis
    using assms(3) by (simp add: np_transpose_def)
qed

theorem predict_shape_is_reversed_witness:
  "model (small_app\<lparr>model := Some small_model\<rparr>) = Some small_model \<and>
   predict_contract small_model \<and>
   shape (feature_data_tomotwin small_app) = [1, 2, 3, 1] \<and>
   wf_ndarray (feature_data_tomotwin small_app) \<and>
   (\<exists>p. predict (small_app\<lparr>model := Some small_model\<rparr>) (feature_data_tomotwin small_app) = Inr p
        \<and> shape p = [3, 2, 1])"
proof -
  have s: "shape (feature_data_tomotwin small_app) = [1, 2, 3, 1]"
    and w: "wf_ndarray (feature_data_tomotwin small_app)"
    by (simp_all add: small_app_def wf_ndarray_def)
  have m: "model (small_app\<lparr>model := Some small_model\<rparr>) = Some small_model" by simp
  show ?thesis
    using predict_shape_is_reversed [OF m small_model_contract s w] s w small_model_contract
    by simp
qed

text \<open>
  The claim C4 as it is written fails on a volume of shape (1, 2, 3): \<^verbatim>\<open>predict\<close>
  returns an array of shape (3, 2, 1).
\<close>

theorem predict_shape_counterexample:
  "predict (small_app\<lparr>model := Some small_model\<rparr>) (feature_data_tomotwin small_app)
     = Inr \<lparr>shape = [3, 2, 1], data = [1, 1, 3, 1, 3, 3]\<rparr> \<and>
   butlast (shape (feature_data_tomotwin small_app)) = [1, 2, 3] \<and>
   [3, 2, 1] \<noteq> [1, 2, 3 :: nat]"
  using small_predict by (simp add: small_app_def)

text \<open>
  C2, as the code has it: every entry of a prediction is a class the model was fitted on
  plus one, hence at least 1 and one of the positive labels of the training labels; the
  entries lie in [1, K] when the classes are exactly 0, ..., K - 1.
\<close>

theorem predict_labels_are_trained_labels:
  assumes "fit_contract learn"
    and "fit_model learn labels features model_type = Inr (Some M)"
    and "model self = Some M"
    and "predict self F = Inr p"
  shows "(\<forall>v \<in> set (data p). 1 \<le> v \<and> v - 1 \<in> set (classes M) \<and> v \<in> set (data labels)) \<and>
         (classes M = map int [0..<K] \<longrightarrow> (\<forall>v \<in> set (data p). 1 \<le> v \<and> v \<le> int K))"
proof -
  from assms(2) obtain c where c: "fit_model_call labels features model_type = Inr (Some c)"
    and l: "learn c = Inr M"
    by (auto simp: fit_model_def split: sum.splits option.splits)
  from assms(1) l have cl: "classes M = np_unique (fit_y c)" and pc: "predict_contract M"
    by (auto simp: fit_contract_def)
  from predict_InrD [OF assms(4)] assms(3)
  have len: "prod_list (butlast (shape F)) = length (clf_predict M (rows_view F))"
    and p: "p = np_transpose \<lparr>shape = butlast (shape F),
                 data = map (\<lambda>c. c + 1) (clf_predict M (rows_view F))\<rparr>"
    by auto
  have sub: "set (data p) \<subseteq> (\<lambda>c. c + 1) ` set (clf_predict M (rows_view F))"
    using np_transpose_data_subset [of "\<lparr>shape = butlast (shape F),
                 data = map (\<lambda>c. c + 1) (clf_predict M (rows_view F))\<rparr>"] len p
    by (simp add: wf_ndarray_def)
  have main: "1 \<le> v \<and> v - 1 \<in> set (classes M) \<and> v \<in> set (data labels)"
    if "v \<in> set (data p)" for v
  proof -
    from that sub obtain k where k: "k \<in> set (clf_predict M (rows_view F))" and v: "v = k + 1"
      by auto
    from k pc have "k \<in> set (classes M)" by (auto simp: predict_contract_def)
    moreover from this have "k \<in> set (fit_y c)" by (simp add: cl set_np_unique)
    then obtain l where "l \<in> set (data labels)" "0 < l" "k = l - 1"
      by (auto simp: fit_model_call_y [OF c])
    ultimately show ?thesis using v by auto
  qed
  have "1 \<le> v \<and> v \<le> int K" if "v \<in> set (data p)" "classes M = map int [0..<K]" for v
    using main [OF that(1)] that(2) by auto
  with main show ?thesis by blast
qed

theorem predict_labels_are_trained_labels_witness:
  "fit_contract stub_learner \<and>
   fit_model stub_learner (np_squeeze (painting_data small_app))
     (feature_data_tomotwin small_app) ''Random Forest'' = Inr (Some small_model) \<and>
   predict (small_app\<lparr>model := Some small_model\<rparr>) (feature_data_tomotwin small_app)
     = Inr \<lparr>shape = [3, 2, 1], data = [1, 1, 3, 1, 3, 3]\<rparr> \<and>
   1 \<le> (3::int) \<and> 3 - 1 \<in> set (classes small_model) \<and>
   (3::int) \<in> set (data (np_squeeze (painting_data small_app)))"
proof -
  have m: "model (small_app\<lparr>model := Some small_model\<rparr>) = Some small_model" by simp
  show ?thesis
    using predict_labels_are_trained_labels [OF stub_learner_contract small_fit m small_predict,
        of 0]
      stub_learner_contract small_fit small_predict
    by simp
qed

text \<open>
  The claim C2 as it is written fails when the painted labels are 1 and 3: the model is
  fitted on K = 2 classes (0 and 2) and predicts label 3.
\<close>

theorem predict_range_counterexample:
  "fit_model stub_learner (np_squeeze (painting_data small_app))
     (feature_data_tomotwin small_app) ''Random Forest'' = Inr (Some small_model) \<and>
   length (classes small_model) = 2 \<and>
   predict (small_app\<lparr>model := Some small_model\<rparr>) (feature_data_tomotwin small_app)
     = Inr \<lparr>shape = [3, 2, 1], data = [1, 1, 3, 1, 3, 3]\<rparr> \<and>
   (3::int) \<in> set [1, 1, 3, 1, 3, 3] \<and>
   \<not> (3::int) \<le> int (length (classes small_model))"
  using small_fit small_predict by (simp add: small_model_def)

section \<open>Fitting\<close>

lemma flatnonzero_map:
  "np_flatnonzero (map P xs) = filter (\<lambda>i. P (xs ! i)) [0..<length xs]"
  by (auto simp: np_flatnonzero_def intro: filter_cong)

lemma filter_by_index:
  "filter P xs = map (\<lambda>i. xs ! i) (filter (\<lambda>i. P (xs ! i)) [0..<length xs])"
proof -
  have "filter P (map (\<lambda>i. xs ! i) [0..<length xs])
          = map (\<lambda>i. xs ! i) (filter (\<lambda>i. P (xs ! i)) [0..<length xs])"
    by (simp add: filter_map comp_def)
  then show ?thesis by (simp add: map_nth)
qed

lemma fit_model_call_X:
  assumes "fit_model_call labels features model_type = Inr (Some c)"
  shows "fit_X c =
           \<lparr>shape = [length (filter (\<lambda>i. 0 < data labels ! i) [0..<length (data labels)]),
                     last (shape features)],
            data = concat (map (row_of (last (shape features)) (data features))
                     (filter (\<lambda>i. 0 < data labels ! i) [0..<length (data labels)]))\<rparr>"
  using assms
  by (auto simp: fit_model_call_def shape_last_def reshape_rows_def take_rows_def
        flatnonzero_map Let_def split: sum.splits if_splits)

lemma fit_model_call_total:
  assumes "shape labels \<noteq> []"
    and "shape features \<noteq> []" and "0 < last (shape features)"
    and "length (data features) = length (data labels) * last (shape features)"
    and "model_type = ''Random Forest'' \<or> model_type = ''XGBoost''"
  shows "\<exists>r. fit_model_call labels features model_type = Inr r \<and>
              (r = None \<longleftrightarrow> (\<forall>l \<in> set (data labels). l \<le> 0))"
proof -
  have e: "(filter (\<lambda>l. 0 < l) (data labels) = []) \<longleftrightarrow> (\<forall>l \<in> set (data labels). l \<le> 0)"
    by (auto simp: filter_empty_conv)
  show ?thesis
    using assms e
    by (auto simp: fit_model_call_def shape_last_def reshape_rows_def take_rows_def
        np_compress_def compress_filter Let_def)
qed

lemma fit_model_SomeD:
  assumes "fit_model learn labels features model_type = Inr (Some M)"
  shows "\<exists>c. fit_model_call labels features model_type = Inr (Some c) \<and> learn c = Inr M"
  using assms by (auto simp: fit_model_def split: sum.splits option.splits)

lemma fit_model_call_y_index:
  assumes "fit_model_call labels features model_type = Inr (Some c)"
  shows "fit_y c = map (\<lambda>i. data labels ! i - 1)
             (filter (\<lambda>i. 0 < data labels ! i) [0..<length (data labels)])"
  unfolding fit_model_call_y [OF assms]
  by (subst filter_by_index) (simp add: comp_def)

lemma small_fit_labels:
  "map (\<lambda>i. data (np_squeeze (painting_data small_app)) ! i - 1)
     (filter (\<lambda>i. 0 < data (np_squeeze (painting_data small_app)) ! i)
        [0..<length (data (np_squeeze (painting_data small_app)))]) = [0, 2, 0, 2]"
  by code_simp

text \<open>
  C3: whenever \<^verbatim>\<open>fit_model\<close> returns a classifier, the library fitted it on the voxels
  with a label above 0, in their order, each with its feature row and its label minus
  one, so no label 0 enters and no training label is negative. On well-formed arrays
  with a supported algorithm and at least one label above 0, \<^verbatim>\<open>fit_model\<close> is the
  outcome of the library's fit on that very training set, whatever the library.
\<close>

theorem fit_training_set:
  "(fit_model learn labels features model_type = Inr (Some M) \<longrightarrow>
      (\<exists>c. learn c = Inr M \<and>
         (let idx = filter (\<lambda>i. 0 < data labels ! i) [0..<length (data labels)];
              F = last (shape features)
          in fit_y c = map (\<lambda>i. data labels ! i - 1) idx \<and>
             fit_X c = \<lparr>shape = [length idx, F],
                        data = concat (map (row_of F (data features)) idx)\<rparr> \<and>
             (\<forall>i < length (data labels). i \<in> set idx \<longleftrightarrow> 0 < data labels ! i) \<and>
             (\<forall>l \<in> set (fit_y c). 0 \<le> l)))) \<and>
   (shape labels \<noteq> [] \<and> shape features \<noteq> [] \<and> 0 < last (shape features) \<and>
    length (data features) = length (data labels) * last (shape features) \<and>
    (model_type = ''Random Forest'' \<or> model_type = ''XGBoost'') \<and>
    (\<exists>l \<in> set (data labels). 0 < l) \<longrightarrow>
      (\<exists>c. fit_model learn labels features model_type
               = (case learn c of Inl e \<Rightarrow> Inl e | Inr clf \<Rightarrow> Inr (Some clf)) \<and>
           (let idx = filter (\<lambda>i. 0 < data labels ! i) [0..<length (data labels)];
                F = last (shape features)
            in fit_y c = map (\<lambda>i. data labels ! i - 1) idx \<and>
               fit_X c = \<lparr>shape = [length idx, F],
                          data = concat (map (row_of F (data features)) idx)\<rparr>)))"
proof (intro conjI impI)
  assume "fit_model learn labels features model_type = Inr (Some M)"
  from fit_model_SomeD [OF this] obtain c
    where c: "fit_model_call labels features model_type = Inr (Some c)"
      and l: "learn c = Inr M"
    by blast
  have nonneg: "\<forall>l \<in> set (fit_y c). 0 \<le> l"
    unfolding fit_model_call_y [OF c] by auto
  have "let idx = filter (\<lambda>i. 0 < data labels ! i) [0..<length (data labels)];
            F = last (shape features)
        in fit_y c = map (\<lambda>i. data labels ! i - 1) idx \<and>
           fit_X c = \<lparr>shape = [length idx, F],
                      data = concat (map (row_of F (data features)) idx)\<rparr> \<and>
           (\<forall>i < length (data labels). i \<in> set idx \<longleftrightarrow> 0 < data labels ! i) \<and>
           (\<forall>l \<in> set (fit_y c). 0 \<le> l)"
    using fit_model_call_y_index [OF c] nonneg fit_model_call_X [OF c] by (simp add: Let_def)
  with l show "\<exists>c. learn c = Inr M \<and>
         (let idx = filter (\<lambda>i. 0 < data labels ! i) [0..<length (data labels)];
              F = last (shape features)
          in fit_y c = map (\<lambda>i. data labels ! i - 1) idx \<and>
             fit_X c = \<lparr>shape = [length idx, F],
                        data = concat (map (row_of F (data features)) idx)\<rparr> \<and>
             (\<forall>i < length (data labels). i \<in> set idx \<longleftrightarrow> 0 < data labels ! i) \<and>
             (\<forall>l \<in> set (fit_y c). 0 \<le> l))"
    by blast
next
  assume h: "shape labels \<noteq> [] \<and> shape features \<noteq> [] \<and> 0 < last (shape features) \<and>
    length (data features) = length (data labels) * last (shape features) \<and>
    (model_type = ''Random Forest'' \<or> model_type = ''XGBoost'') \<and>
    (\<exists>l \<in> set (data labels). 0 < l)"
  then obtain r where r: "fit_model_call labels features model_type = Inr r"
    and n: "r = None \<longleftrightarrow> (\<forall>l \<in> set (data labels). l \<le> 0)"
    using fit_model_call_total [of labels features model_type] by blast
  from h n have "r \<noteq> None" by force
  then obtain c where c: "fit_model_call labels features model_type = Inr (Some c)"
    using r by auto
  have run: "fit_model learn labels features model_type
               = (case learn c of Inl e \<Rightarrow> Inl e | Inr clf \<Rightarrow> Inr (Some clf))"
    by (simp add: fit_model_def c)
  have "let idx = filter (\<lambda>i. 0 < data labels ! i) [0..<length (data labels)];
            F = last (shape features)
        in fit_y c = map (\<lambda>i. data labels ! i - 1) idx \<and>
           fit_X c = \<lparr>shape = [length idx, F],
                      data = concat (map (row_of F (data features)) idx)\<rparr>"
    using fit_model_call_y_index [OF c] fit_model_call_X [OF c] by (simp add: Let_def)
  with run show "\<exists>c. fit_model learn labels features model_type
               = (case learn c of Inl e \<Rightarrow> Inl e | Inr clf \<Rightarrow> Inr (Some clf)) \<and>
           (let idx = filter (\<lambda>i. 0 < data labels ! i) [0..<length (data labels)];
                F = last (shape features)
            in fit_y c = map (\<lambda>i. data labels ! i - 1) idx \<and>
               fit_X c = \<lparr>shape = [length idx, F],
                          data = concat (map (row_of F (data features)) idx)\<rparr>)"
    by blast
qed

theorem fit_training_set_witness:
  "fit_model stub_learner (np_squeeze (painting_data small_app))
     (feature_data_tomotwin small_app) ''Random Forest'' = Inr (Some small_model) \<and>
   data (np_squeeze (painting_data small_app)) = [1, 3, 0, 0, 1, 3] \<and>
   (\<exists>c. stub_learner c = Inr small_model \<and> fit_y c = [0, 2, 0, 2]) \<and>
   shape (np_squeeze (painting_data small_app)) \<noteq> [] \<and>
   shape (feature_data_tomotwin small_app) \<noteq> [] \<and>
   0 < last (shape (feature_data_tomotwin small_app)) \<and>
   length (data (feature_data_tomotwin small_app))
     = length (data (np_squeeze (painting_data small_app)))
         * last (shape (feature_data_tomotwin small_app)) \<and>
   (1::int) \<in> set (data (np_squeeze (painting_data small_app)))"
proof -
  let ?L = "np_squeeze (painting_data small_app)"
  let ?F = "feature_data_tomotwin small_app"
  have d: "data ?L = [1, 3, 0, 0, 1, 3]"
    by (simp add: small_app_def np_squeeze_def)
  from fit_training_set [of stub_learner ?L ?F "''Random Forest''" small_model] small_fit
  obtain c where "stub_learner c = Inr small_model"
    and "fit_y c = map (\<lambda>i. data ?L ! i - 1)
          (filter (\<lambda>i. 0 < data ?L ! i) [0..<length (data ?L)])"
    unfolding Let_def by blast
  then have y: "\<exists>c. stub_learner c = Inr small_model \<and> fit_y c = [0, 2, 0, 2]"
    unfolding small_fit_labels by blast
  have f: "shape ?L \<noteq> [] \<and> shape ?F \<noteq> [] \<and> 0 < last (shape ?F) \<and>
           length (data ?F) = length (data ?L) * last (shape ?F)"
    by (simp add: small_app_def np_squeeze_def)
  have m: "(1::int) \<in> set (data ?L)" by (simp add: d)
  from small_fit d y f m show ?thesis by blast
qed

lemma np_unique_distinct: "distinct (np_unique xs)"
  by (simp add: np_unique_def)

lemma balanced_weight_lookup:
  assumes "c \<in> set y"
  shows "map_of (zip (np_unique y) (compute_class_weight_balanced (np_unique y) y)) c
           = Some (real (length y) / (real (length (np_unique y)) * real (count_list y c)))"
  using assms
  by (simp add: compute_class_weight_balanced_def map_of_zip_map set_np_unique)

lemma balanced_weight_sum:
  assumes "y \<noteq> []"
  shows "(\<Sum>(c, w) \<leftarrow> zip (np_unique y) (compute_class_weight_balanced (np_unique y) y).
            w * real (count_list y c)) = real (length y)"
proof -
  let ?u = "np_unique y"
  let ?f = "\<lambda>c. real (length y) / (real (length ?u) * real (count_list y c))"
  have pos: "0 < length ?u"
    using assms set_np_unique [of y] by (cases ?u) auto
  have each: "?f c * real (count_list y c) = real (length y) / real (length ?u)"
    if "c \<in> set ?u" for c
  proof -
    from that have "0 < count_list y c"
      by (simp add: set_np_unique count_list_0_iff zero_less_iff_neq_zero)
    then show ?thesis by simp
  qed
  have "(\<Sum>(c, w) \<leftarrow> zip ?u (compute_class_weight_balanced ?u y). w * real (count_list y c))
          = (\<Sum>c \<leftarrow> ?u. ?f c * real (count_list y c))"
    by (simp add: compute_class_weight_balanced_def zip_map2 zip_same_conv_map comp_def
        case_prod_unfold)
  also have "\<dots> = (\<Sum>c \<leftarrow> ?u. real (length y) / real (length ?u))"
    using each by (intro arg_cong [where f = sum_list] map_cong) auto
  also have "\<dots> = real (length y)"
    using pos by (simp add: sum_list_triv)
  finally show ?thesis .
qed

lemma sum_list_by_count:
  fixes f :: "'a \<Rightarrow> real"
  assumes "finite A" and "set xs \<subseteq> A"
  shows "(\<Sum>x \<leftarrow> xs. f x) = (\<Sum>c \<in> A. real (count_list xs c) * f c)"
  using assms(2)
proof (induction xs)
  case Nil
  show ?case by simp
next
  case (Cons x xs)
  have "(\<Sum>c \<in> A. real (count_list (x # xs) c) * f c)
          = (\<Sum>c \<in> A. real (count_list xs c) * f c + (if x = c then f c else 0))"
    by (intro sum.cong) (auto simp: algebra_simps)
  also have "\<dots> = (\<Sum>c \<in> A. real (count_list xs c) * f c)
                    + (\<Sum>c \<in> A. if x = c then f c else 0)"
    by (simp add: sum.distrib)
  also have "(\<Sum>c \<in> A. if x = c then f c else 0) = f x"
    using assms(1) Cons.prems by (simp add: sum.delta')
  finally show ?case
    using Cons by simp
qed

lemma sample_weight_sum:
  assumes "y \<noteq> []"
  shows "(\<Sum>c \<leftarrow> y. real (length y) / (real (length (np_unique y)) * real (count_list y c)))
           = real (length y)"
proof -
  let ?u = "np_unique y"
  let ?g = "\<lambda>c. real (length y) / (real (length ?u) * real (count_list y c))"
  have "(\<Sum>c \<leftarrow> y. ?g c) = (\<Sum>c \<in> set y. real (count_list y c) * ?g c)"
    by (rule sum_list_by_count) simp_all
  also have "\<dots> = (\<Sum>c \<leftarrow> ?u. ?g c * real (count_list y c))"
    by (simp add: sum_list_distinct_conv_sum_set [OF np_unique_distinct] set_np_unique
        mult.commute)
  also have "\<dots> = real (length y)"
    using balanced_weight_sum [OF assms]
    by (simp add: compute_class_weight_balanced_def zip_map2 zip_same_conv_map comp_def
        case_prod_unfold)
  finally show ?thesis .
qed

lemma fit_model_call_weights:
  assumes "fit_model_call labels features model_type = Inr (Some c)"
  shows "fit_y c \<noteq> [] \<and>
    (case c of
       RandomForestFit weight_dict X y \<Rightarrow>
         weight_dict = zip (np_unique y) (compute_class_weight_balanced (np_unique y) y)
     | XGBoostFit X y sample_weights \<Rightarrow>
         sample_weights = map (map_of (zip (np_unique y)
                            (compute_class_weight_balanced (np_unique y) y))) y)"
  using assms
  by (auto simp: fit_model_call_def Let_def split: sum.splits if_splits)

lemma six_labels_forest:
  "fit_model_call \<lparr>shape = [6], data = [1, 1, 2, 2, 2, 3]\<rparr>
     \<lparr>shape = [6, 1], data = [0, 0, 0, 0, 0, 0]\<rparr> ''Random Forest''
   = Inr (Some (RandomForestFit [(0, 1), (1, 2 / 3), (2, 2)]
           \<lparr>shape = [6, 1], data = [0, 0, 0, 0, 0, 0]\<rparr> [0, 0, 1, 1, 1, 2]))"
  by code_simp

lemma six_labels_boost:
  "fit_model_call \<lparr>shape = [6], data = [1, 1, 2, 2, 2, 3]\<rparr>
     \<lparr>shape = [6, 1], data = [0, 0, 0, 0, 0, 0]\<rparr> ''XGBoost''
   = Inr (Some (XGBoostFit \<lparr>shape = [6, 1], data = [0, 0, 0, 0, 0, 0]\<rparr> [0, 0, 1, 1, 1, 2]
           [Some 1, Some 1, Some (2 / 3), Some (2 / 3), Some (2 / 3), Some 2]))"
  by code_simp

text \<open>
  C6, as the code has it: the class weights of a fit are
  \<open>N_total / (num_classes * count(c))\<close>, their count-weighted sum is \<open>N_total\<close>, and the
  per-sample weights handed to the boosted trees are the weights of the samples' classes
  and sum to \<open>N_total\<close> as well. For the labels [1, 1, 2, 2, 2, 3] the weights are 1 for
  class 0, 2/3 for class 1 and 2 for class 2.
\<close>

theorem balanced_class_weights:
  "(fit_model_call labels features model_type = Inr (Some (RandomForestFit weight_dict X y)) \<longrightarrow>
      (\<forall>c \<in> set y. map_of weight_dict c
          = Some (real (length y) / (real (length (np_unique y)) * real (count_list y c)))) \<and>
      (\<Sum>(c, w) \<leftarrow> weight_dict. w * real (count_list y c)) = real (length y)) \<and>
   (fit_model_call labels features model_type = Inr (Some (XGBoostFit X y sample_weights)) \<longrightarrow>
      sample_weights
        = map (\<lambda>c. Some (real (length y) / (real (length (np_unique y)) * real (count_list y c)))) y \<and>
      (\<Sum>c \<leftarrow> y. real (length y) / (real (length (np_unique y)) * real (count_list y c)))
        = real (length y)) \<and>
   fit_model_call \<lparr>shape = [6], data = [1, 1, 2, 2, 2, 3]\<rparr>
       \<lparr>shape = [6, 1], data = [0, 0, 0, 0, 0, 0]\<rparr> ''Random Forest''
     = Inr (Some (RandomForestFit [(0, 1), (1, 2 / 3), (2, 2)]
             \<lparr>shape = [6, 1], data = [0, 0, 0, 0, 0, 0]\<rparr> [0, 0, 1, 1, 1, 2]))"
proof (intro conjI impI)
  show "fit_model_call \<lparr>shape = [6], data = [1, 1, 2, 2, 2, 3]\<rparr>
       \<lparr>shape = [6, 1], data = [0, 0, 0, 0, 0, 0]\<rparr> ''Random Forest''
     = Inr (Some (RandomForestFit [(0, 1), (1, 2 / 3), (2, 2)]
             \<lparr>shape = [6, 1], data = [0, 0, 0, 0, 0, 0]\<rparr> [0, 0, 1, 1, 1, 2]))"
    by (rule six_labels_forest)
next
  assume a: "fit_model_call labels features model_type
               = Inr (Some (RandomForestFit weight_dict X y))"
  from fit_model_call_weights [OF a]
  have y: "y \<noteq> []"
    and w: "weight_dict = zip (np_unique y) (compute_class_weight_balanced (np_unique y) y)"
    by simp_all
  show "\<forall>c \<in> set y. map_of weight_dict c
          = Some (real (length y) / (real (length (np_unique y)) * real (count_list y c)))"
    unfolding w using balanced_weight_lookup by blast
  show "(\<Sum>(c, w) \<leftarrow> weight_dict. w * real (count_list y c)) = real (length y)"
    unfolding w by (rule balanced_weight_sum [OF y])
next
  assume a: "fit_model_call labels features model_type
               = Inr (Some (XGBoostFit X y sample_weights))"
  from fit_model_call_weights [OF a]
  have y: "y \<noteq> []"
    and w: "sample_weights = map (map_of (zip (np_unique y)
                            (compute_class_weight_balanced (np_unique y) y))) y"
    by simp_all
  show "sample_weights
        = map (\<lambda>c. Some (real (length y) / (real (length (np_unique y)) * real (count_list y c)))) y"
    unfolding w using balanced_weight_lookup by (intro map_cong) auto
  show "(\<Sum>c \<leftarrow> y. real (length y) / (real (length (np_unique y)) * real (count_list y c)))
        = real (length y)"
    by (rule sample_weight_sum [OF y])
qed

theorem balanced_class_weights_witness:
  "fit_model_call \<lparr>shape = [6], data = [1, 1, 2, 2, 2, 3]\<rparr>
     \<lparr>shape = [6, 1], data = [0, 0, 0, 0, 0, 0]\<rparr> ''Random Forest''
   = Inr (Some (RandomForestFit [(0, 1), (1, 2 / 3), (2, 2)]
           \<lparr>shape = [6, 1], data = [0, 0, 0, 0, 0, 0]\<rparr> [0, 0, 1, 1, 1, 2])) \<and>
   map_of [(0, 1), (1, 2 / 3), (2, 2 :: real)] (0 :: int)
     = Some (real (length [0, 0, 1, 1, 1, 2 :: int])
          / (real (length (np_unique [0, 0, 1, 1, 1, 2]))
               * real (count_list [0, 0, 1, 1, 1, 2 :: int] 0))) \<and>
   (\<Sum>(c, w) \<leftarrow> [(0, 1), (1, 2 / 3), (2, 2 :: real)].
       w * real (count_list [0, 0, 1, 1, 1, 2 :: int] c)) = 6"
proof -
  from balanced_class_weights [of "\<lparr>shape = [6], data = [1, 1, 2, 2, 2, 3]\<rparr>"
      "\<lparr>shape = [6, 1], data = [0, 0, 0, 0, 0, 0]\<rparr>" "''Random Forest''"
      "[(0, 1), (1, 2 / 3), (2, 2)]" "\<lparr>shape = [6, 1], data = [0, 0, 0, 0, 0, 0]\<rparr>"
      "[0, 0, 1, 1, 1, 2]"] six_labels_forest
  have "(\<forall>c \<in> set [0, 0, 1, 1, 1, 2 :: int]. map_of [(0, 1), (1, 2 / 3), (2, 2 :: real)] c
          = Some (real (length [0, 0, 1, 1, 1, 2 :: int])
              / (real (length (np_unique [0, 0, 1, 1, 1, 2]))
                   * real (count_list [0, 0, 1, 1, 1, 2 :: int] c))))"
    and "(\<Sum>(c, w) \<leftarrow> [(0, 1), (1, 2 / 3), (2, 2 :: real)].
            w * real (count_list [0, 0, 1, 1, 1, 2 :: int] c))
          = real (length [0, 0, 1, 1, 1, 2 :: int])"
    by blast+
  with six_labels_forest show ?thesis by simp
qed

text \<open>
  The claim C6 as it is written fails on its own example: for the labels
  [1, 1, 2, 2, 2, 3] the weights are 1 for class 0, 2/3 for class 1 and 2 for class 2, so
  neither \<open>weight(0) = 2\<close> nor \<open>weight(1) = 1\<close> holds.
\<close>

theorem class_weight_example_counterexample:
  "fit_model_call \<lparr>shape = [6], data = [1, 1, 2, 2, 2, 3]\<rparr>
     \<lparr>shape = [6, 1], data = [0, 0, 0, 0, 0, 0]\<rparr> ''Random Forest''
   = Inr (Some (RandomForestFit [(0, 1), (1, 2 / 3), (2, 2)]
           \<lparr>shape = [6, 1], data = [0, 0, 0, 0, 0, 0]\<rparr> [0, 0, 1, 1, 1, 2])) \<and>
   map_of [(0, 1), (1, 2 / 3), (2, 2 :: real)] (0 :: int) \<noteq> Some 2 \<and>
   map_of [(0, 1), (1, 2 / 3), (2, 2 :: real)] (1 :: int) \<noteq> Some 1"
  using six_labels_forest by simp

section \<open>The fit/predict cycle\<close>

lemma fit_model_call_no_labels:
  assumes "\<forall>l \<in> set (data labels). l \<le> 0"
    and "shape labels \<noteq> []"
    and "shape features \<noteq> []" and "0 < last (shape features)"
    and "length (data features) = length (data labels) * last (shape features)"
  shows "fit_model_call labels features model_type = Inr None"
proof -
  have "filter (\<lambda>l. 0 < l) (data labels) = []"
    using assms(1) by (auto simp: filter_empty_conv)
  then show ?thesis
    using assms(2-5)
    by (simp add: fit_model_call_def shape_last_def reshape_rows_def take_rows_def
        np_compress_def compress_filter Let_def)
qed

text \<open>
  C1, what the code does: on well-formed arrays with at least one axis and without a
  label above 0, \<^verbatim>\<open>fit_model\<close> returns \<open>None\<close> without raising, and \<^verbatim>\<open>on_model_fit\<close>
  then stores that \<open>None\<close> in the model handle, whatever model the handle held before.
\<close>

theorem fit_skip_clears_model:
  assumes "\<forall>l \<in> set (data labels). l \<le> 0"
    and "shape labels \<noteq> []"
    and "shape features \<noteq> []" and "0 < last (shape features)"
    and "length (data features) = length (data labels) * last (shape features)"
  shows "fit_model learn labels features model_type = Inr None \<and>
         on_model_fit self (fit_model learn labels features model_type)
             live_prediction use_skimage_features
           = Inr (self\<lparr>model := None\<rparr>)"
  using fit_model_call_no_labels [OF assms]
  by (simp add: fit_model_def on_model_fit_def)

lemma unpainted_data_change:
  "on_data_change (small_app\<lparr>model := Some small_model,
       painting_data := \<lparr>shape = [1, 2, 3], data = [0, 0, 0, 0, 0, 0]\<rparr>\<rparr>)
   = Inr (small_app\<lparr>model := Some small_model,
       painting_data := \<lparr>shape = [1, 2, 3], data = [0, 0, 0, 0, 0, 0]\<rparr>,
       status := ''Fitting model ...'',
       executor := [FitModelTask \<lparr>shape = [2, 3], data = [0, 0, 0, 0, 0, 0]\<rparr>
                      (feature_data_tomotwin small_app) ''Random Forest'' True False]\<rparr>)"
  by (simp add: on_data_change_def get_training_features_and_labels_def get_features_def
      get_mask_idx_def masked_rows_def np_getitem_def shape_last_def reshape_rows_def
      np_concatenate_axis1_def np_squeeze_def py_tuple_eq_int_def np_any_def small_app_def
      Let_def)

theorem fit_skip_clears_model_witness:
  "model (small_app\<lparr>model := Some small_model,
       painting_data := \<lparr>shape = [1, 2, 3], data = [0, 0, 0, 0, 0, 0]\<rparr>\<rparr>) = Some small_model \<and>
   on_data_change (small_app\<lparr>model := Some small_model,
       painting_data := \<lparr>shape = [1, 2, 3], data = [0, 0, 0, 0, 0, 0]\<rparr>\<rparr>)
   = Inr (small_app\<lparr>model := Some small_model,
       painting_data := \<lparr>shape = [1, 2, 3], data = [0, 0, 0, 0, 0, 0]\<rparr>,
       status := ''Fitting model ...'',
       executor := [FitModelTask \<lparr>shape = [2, 3], data = [0, 0, 0, 0, 0, 0]\<rparr>
                      (feature_data_tomotwin small_app) ''Random Forest'' True False]\<rparr>) \<and>
   run_task stub_learner (small_app\<lparr>model := Some small_model,
       painting_data := \<lparr>shape = [1, 2, 3], data = [0, 0, 0, 0, 0, 0]\<rparr>,
       status := ''Fitting model ...'',
       executor := [FitModelTask \<lparr>shape = [2, 3], data = [0, 0, 0, 0, 0, 0]\<rparr>
                      (feature_data_tomotwin small_app) ''Random Forest'' True False]\<rparr>)
   = Inr (small_app\<lparr>model := None,
       painting_data := \<lparr>shape = [1, 2, 3], data = [0, 0, 0, 0, 0, 0]\<rparr>,
       status := ''Fitting model ...'',
       executor := []\<rparr>)"
proof -
  let ?L = "\<lparr>shape = [2, 3], data = [0, 0, 0, 0, 0, 0 :: int]\<rparr>"
  let ?F = "feature_data_tomotwin small_app"
  have h: "\<forall>l \<in> set (data ?L). l \<le> 0" "shape ?L \<noteq> []" "shape ?F \<noteq> []"
    "0 < last (shape ?F)"
    "length (data ?F) = length (data ?L) * last (shape ?F)"
    by (simp_all add: small_app_def)
  let ?S = "small_app\<lparr>model := Some small_model,
         painting_data := \<lparr>shape = [1, 2, 3], data = [0, 0, 0, 0, 0, 0]\<rparr>,
         status := ''Fitting model ...'', executor := []\<rparr>"
  from fit_skip_clears_model [OF h, of stub_learner "''Random Forest''" ?S True False]
  have cb: "on_model_fit ?S (fit_model stub_learner ?L ?F ''Random Forest'') True False
              = Inr (?S\<lparr>model := None\<rparr>)"
    by blast
  have "run_task stub_learner (?S\<lparr>executor :=
            [FitModelTask ?L ?F ''Random Forest'' True False]\<rparr>)
          = on_model_fit ?S (fit_model stub_learner ?L ?F ''Random Forest'') True False"
    by (simp add: run_task_def)
  also note cb
  also have "?S\<lparr>model := None\<rparr> = small_app\<lparr>model := None,
       painting_data := \<lparr>shape = [1, 2, 3], data = [0, 0, 0, 0, 0, 0]\<rparr>,
       status := ''Fitting model ...'', executor := []\<rparr>"
    by (simp add: small_app_def)
  finally show ?thesis
    using unpainted_data_change by simp
qed

section \<open>Fetching features\<close>

lemma slice_range_bound: "i \<in> set (slice_range d s) \<Longrightarrow> i < d"
  by (auto simp: slice_range_def slice_clip_def split: if_splits)

lemma row_of_length:
  "Suc i * F \<le> length xs \<Longrightarrow> length (row_of F xs i) = F"
  by (auto simp: row_of_def)

lemma length_concat_blocks:
  "(\<forall>x \<in> set xs. length (f x) = c) \<Longrightarrow> length (concat (map f xs)) = length xs * c"
  by (induction xs) auto

lemma slice_data_length:
  "length xs = prod_list ds \<Longrightarrow> length (slice_data ds sl xs) = prod_list (slice_shape ds sl)"
proof (induction ds sl xs rule: slice_data.induct)
  case (3 d ds s sl xs)
  have "length (slice_data ds sl (row_of (prod_list ds) xs i)) = prod_list (slice_shape ds sl)"
    if "i \<in> set (slice_range d s)" for i
  proof -
    from that have "Suc i \<le> d" using slice_range_bound by fastforce
    then have "Suc i * prod_list ds \<le> d * prod_list ds" by (rule mult_le_mono1)
    then have "length (row_of (prod_list ds) xs i) = prod_list ds"
      using "3.prems" by (intro row_of_length) simp
    with that show ?thesis by (rule "3.IH")
  qed
  then show ?case
    by (simp add: length_concat_blocks)
qed simp_all

lemma slice_shape_last:
  "length sl < length ds \<Longrightarrow>
     slice_shape ds sl \<noteq> [] \<and> last (slice_shape ds sl) = last ds"
  by (induction ds sl rule: slice_shape.induct) auto

lemma masked_rows_total:
  assumes "wf_ndarray fd" and "length sl < length (shape fd)" and "0 < last (shape fd)"
  shows "masked_rows fd sl
           = Inr \<lparr>shape = [prod_list (butlast (slice_shape (shape fd) sl)), last (shape fd)],
                  data = slice_data (shape fd) sl (data fd)\<rparr>"
proof -
  let ?s = "slice_shape (shape fd) sl"
  have len: "length (slice_data (shape fd) sl (data fd)) = prod_list ?s"
    using assms(1) by (intro slice_data_length) (simp add: wf_ndarray_def)
  have "prod_list ?s = prod_list (butlast ?s) * last (shape fd)"
    using slice_shape_last [OF assms(2)] prod_list_butlast [of ?s] by simp
  with len have n: "length (slice_data (shape fd) sl (data fd))
                      = prod_list (butlast ?s) * last (shape fd)"
    by simp
  from assms(2) have ne: "shape fd \<noteq> []" by auto
  show ?thesis
    using assms(2,3) ne n
    by (simp add: masked_rows_def np_getitem_def shape_last_def reshape_rows_def Let_def)
qed

lemma row_of_concat_blocks:
  assumes "\<forall>j < n. length (f j) = W" and "i < n"
  shows "row_of W (concat (map f [0..<n])) i = f i"
  using assms
proof (induction n)
  case 0
  then show ?case by simp
next
  case (Suc n)
  let ?A = "concat (map f [0..<n])"
  have lenA: "length ?A = n * W"
    using Suc.prems(1) length_concat_blocks [of "[0..<n]" f W] by simp
  show ?case
  proof (cases "i < n")
    case True
    then have "Suc i * W \<le> n * W" by (intro mult_le_mono1) simp
    then have "W \<le> length (drop (i * W) ?A)" using lenA by simp
    moreover have "i * W \<le> length ?A" using True lenA by simp
    ultimately have "row_of W (?A @ f n) i = row_of W ?A i"
      by (simp add: row_of_def)
    also have "\<dots> = f i" using Suc True by simp
    finally show ?thesis by simp
  next
    case False
    with Suc.prems(2) have "i = n" by simp
    then show ?thesis using lenA Suc.prems(1) by (simp add: row_of_def)
  qed
qed

lemma no_features_selected_iff:
  "get_features self mask_idx use_skimage_features use_tomotwin_features
      = Inl (ValueError ''No features selected for computation.'')
    \<longleftrightarrow> \<not> use_skimage_features \<and> \<not> use_tomotwin_features"
  by (auto simp: get_features_def masked_rows_def np_getitem_def shape_last_def
        reshape_rows_def np_concatenate_axis1_def Let_def
        split: sum.splits if_splits)

lemma slice_shape_append:
  "length sl \<le> length ds \<Longrightarrow> slice_shape (ds @ [F]) sl = slice_shape ds sl @ [F]"
  by (induction ds sl rule: slice_shape.induct) auto

lemma masked_rows_4d:
  assumes "wf_ndarray fd" and "shape fd = [Z, Y, X, F]" and "0 < F" and "length sl = 3"
  shows "masked_rows fd sl
           = Inr \<lparr>shape = [prod_list (slice_shape [Z, Y, X] sl), F],
                  data = slice_data [Z, Y, X, F] sl (data fd)\<rparr>"
    and "length (slice_data [Z, Y, X, F] sl (data fd)) = prod_list (slice_shape [Z, Y, X] sl) * F"
proof -
  have sh: "slice_shape [Z, Y, X, F] sl = slice_shape [Z, Y, X] sl @ [F]"
    using slice_shape_append [of sl "[Z, Y, X]" F] assms(4) by simp
  show "masked_rows fd sl
           = Inr \<lparr>shape = [prod_list (slice_shape [Z, Y, X] sl), F],
                  data = slice_data [Z, Y, X, F] sl (data fd)\<rparr>"
    using masked_rows_total [of fd sl] assms by (simp add: sh)
  show "length (slice_data [Z, Y, X, F] sl (data fd)) = prod_list (slice_shape [Z, Y, X] sl) * F"
    using slice_data_length [of "data fd" "[Z, Y, X, F]" sl] assms(1,2)
    by (simp add: sh wf_ndarray_def)
qed

lemma row_of_length_block:
  "length xs = n * F \<Longrightarrow> i < n \<Longrightarrow> length (row_of F xs i) = F"
proof -
  assume a: "length xs = n * F" "i < n"
  from a(2) have "Suc i * F \<le> n * F" by (intro mult_le_mono1) simp
  with a(1) show ?thesis by (intro row_of_length) simp
qed

text \<open>
  C7: \<^verbatim>\<open>_get_features\<close> raises its "No features selected" error exactly when no feature
  set is selected. With well-formed feature sets of shapes (Z, Y, X, F1) and (Z, Y, X, F2)
  and at least one of them selected it returns an array of shape
  (voxels in mask, total feature width) whose row for a voxel is that voxel's rows of the
  selected sets, one after another.
\<close>

theorem get_features_contract:
  "(get_features self mask_idx use_skimage_features use_tomotwin_features
      = Inl (ValueError ''No features selected for computation.'')
    \<longleftrightarrow> \<not> use_skimage_features \<and> \<not> use_tomotwin_features) \<and>
   (wf_ndarray (feature_data_skimage self) \<and> wf_ndarray (feature_data_tomotwin self) \<and>
    shape (feature_data_skimage self) = [Z, Y, X, F1] \<and>
    shape (feature_data_tomotwin self) = [Z, Y, X, F2] \<and>
    0 < F1 \<and> 0 < F2 \<and> length mask_idx = 3 \<and>
    (use_skimage_features \<or> use_tomotwin_features) \<longrightarrow>
      (\<exists>a. get_features self mask_idx use_skimage_features use_tomotwin_features = Inr a \<and>
           shape a = [prod_list (slice_shape [Z, Y, X] mask_idx),
                      (if use_skimage_features then F1 else 0)
                        + (if use_tomotwin_features then F2 else 0)] \<and>
           (\<forall>i < prod_list (slice_shape [Z, Y, X] mask_idx).
              row_of ((if use_skimage_features then F1 else 0)
                        + (if use_tomotwin_features then F2 else 0)) (data a) i
                = (if use_skimage_features
                   then row_of F1 (slice_data [Z, Y, X, F1] mask_idx
                          (data (feature_data_skimage self))) i
                   else [])
                  @ (if use_tomotwin_features
                     then row_of F2 (slice_data [Z, Y, X, F2] mask_idx
                            (data (feature_data_tomotwin self))) i
                     else []))))"
proof (intro conjI impI)
  show "get_features self mask_idx use_skimage_features use_tomotwin_features
      = Inl (ValueError ''No features selected for computation.'')
    \<longleftrightarrow> \<not> use_skimage_features \<and> \<not> use_tomotwin_features"
    by (rule no_features_selected_iff)
next
  let ?n = "prod_list (slice_shape [Z, Y, X] mask_idx)"
  let ?A = "slice_data [Z, Y, X, F1] mask_idx (data (feature_data_skimage self))"
  let ?B = "slice_data [Z, Y, X, F2] mask_idx (data (feature_data_tomotwin self))"
  assume h: "wf_ndarray (feature_data_skimage self) \<and> wf_ndarray (feature_data_tomotwin self) \<and>
    shape (feature_data_skimage self) = [Z, Y, X, F1] \<and>
    shape (feature_data_tomotwin self) = [Z, Y, X, F2] \<and>
    0 < F1 \<and> 0 < F2 \<and> length mask_idx = 3 \<and>
    (use_skimage_features \<or> use_tomotwin_features)"
  then have sk: "masked_rows (feature_data_skimage self) mask_idx
                   = Inr \<lparr>shape = [?n, F1], data = ?A\<rparr>"
    and lenA: "length ?A = ?n * F1"
    and tt: "masked_rows (feature_data_tomotwin self) mask_idx
                   = Inr \<lparr>shape = [?n, F2], data = ?B\<rparr>"
    and lenB: "length ?B = ?n * F2"
    using masked_rows_4d [of "feature_data_skimage self" Z Y X F1 mask_idx]
      masked_rows_4d [of "feature_data_tomotwin self" Z Y X F2 mask_idx]
    by simp_all
  have rA: "length (row_of F1 ?A j) = F1" if "j < ?n" for j
    using lenA that by (rule row_of_length_block)
  have rB: "length (row_of F2 ?B j) = F2" if "j < ?n" for j
    using lenB that by (rule row_of_length_block)
  consider (both) "use_skimage_features" "use_tomotwin_features"
    | (first) "use_skimage_features" "\<not> use_tomotwin_features"
    | (second) "\<not> use_skimage_features" "use_tomotwin_features"
    using h by blast
  then show "\<exists>a. get_features self mask_idx use_skimage_features use_tomotwin_features = Inr a \<and>
           shape a = [?n, (if use_skimage_features then F1 else 0)
                        + (if use_tomotwin_features then F2 else 0)] \<and>
           (\<forall>i < ?n.
              row_of ((if use_skimage_features then F1 else 0)
                        + (if use_tomotwin_features then F2 else 0)) (data a) i
                = (if use_skimage_features then row_of F1 ?A i else [])
                  @ (if use_tomotwin_features then row_of F2 ?B i else []))"
  proof cases
    case both
    have "row_of (F1 + F2)
            (concat (map (\<lambda>i. row_of F1 ?A i @ row_of F2 ?B i) [0..<?n])) i
          = row_of F1 ?A i @ row_of F2 ?B i" if "i < ?n" for i
      using that rA rB by (intro row_of_concat_blocks) auto
    then show ?thesis
      using both sk tt by (simp add: get_features_def np_concatenate_axis1_def)
  next
    case first
    have "row_of F1 (concat (map (\<lambda>i. row_of F1 ?A i) [0..<?n])) i = row_of F1 ?A i"
      if "i < ?n" for i
      using that rA by (intro row_of_concat_blocks) auto
    then show ?thesis
      using first sk by (simp add: get_features_def np_concatenate_axis1_def)
  next
    case second
    have "row_of F2 (concat (map (\<lambda>i. row_of F2 ?B i) [0..<?n])) i = row_of F2 ?B i"
      if "i < ?n" for i
      using that rB by (intro row_of_concat_blocks) auto
    then show ?thesis
      using second tt by (simp add: get_features_def np_concatenate_axis1_def)
  qed
qed

text \<open>
  The scenario of the specification: feature sets of shapes (4, 10, 10, 8) and
  (4, 10, 10, 32) over the full mask give an array of shape (400, 40).
\<close>

theorem get_features_contract_witness:
  "wf_ndarray \<lparr>shape = [4, 10, 10, 8], data = replicate 3200 (0::real)\<rparr> \<and>
   wf_ndarray \<lparr>shape = [4, 10, 10, 32], data = replicate 12800 (0::real)\<rparr> \<and>
   (\<exists>a. get_features
          (small_app\<lparr>feature_data_skimage :=
                        \<lparr>shape = [4, 10, 10, 8], data = replicate 3200 0\<rparr>,
                     feature_data_tomotwin :=
                        \<lparr>shape = [4, 10, 10, 32], data = replicate 12800 0\<rparr>\<rparr>)
          [(0, 4), (0, 10), (0, 10)] True True = Inr a \<and>
        shape a = [400, 40]) \<and>
   get_features small_app [(0, 4), (0, 10), (0, 10)] False False
     = Inl (ValueError ''No features selected for computation.'')"
proof -
  let ?S = "small_app\<lparr>feature_data_skimage :=
                        \<lparr>shape = [4, 10, 10, 8], data = replicate 3200 0\<rparr>,
                     feature_data_tomotwin :=
                        \<lparr>shape = [4, 10, 10, 32], data = replicate 12800 0\<rparr>\<rparr>"
  have w: "wf_ndarray \<lparr>shape = [4, 10, 10, 8], data = replicate 3200 (0::real)\<rparr>"
    "wf_ndarray \<lparr>shape = [4, 10, 10, 32], data = replicate 12800 (0::real)\<rparr>"
    by (simp_all add: wf_ndarray_def)
  have hyp: "wf_ndarray (feature_data_skimage ?S) \<and> wf_ndarray (feature_data_tomotwin ?S) \<and>
    shape (feature_data_skimage ?S) = [4, 10, 10, 8] \<and>
    shape (feature_data_tomotwin ?S) = [4, 10, 10, 32] \<and>
    (0::nat) < 8 \<and> (0::nat) < 32 \<and> length [(0, 4), (0, 10), (0, 10 :: int) :: py_slice] = 3 \<and>
    (True \<or> True)"
    using w by simp
  from get_features_contract [of ?S "[(0, 4), (0, 10), (0, 10)]" True True 4 10 10 8 32] hyp
  obtain a where "get_features ?S [(0, 4), (0, 10), (0, 10)] True True = Inr a"
    and "shape a = [prod_list (slice_shape [4, 10, 10] [(0, 4), (0, 10), (0, 10)]),
                    (if True then 8 else 0) + (if True then 32 else 0)]"
    by blast
  then have "\<exists>a. get_features ?S [(0, 4), (0, 10), (0, 10)] True True = Inr a
                \<and> shape a = [400, 40]"
    by (simp add: slice_range_def slice_clip_def)
  moreover from get_features_contract [of small_app "[(0, 4), (0, 10), (0, 10)]" False False]
  have "get_features small_app [(0, 4), (0, 10), (0, 10)] False False
     = Inl (ValueError ''No features selected for computation.'')"
    by simp
  ultimately show ?thesis using w by blast
qed

section \<open>Reacting to paint and view events\<close>

text \<open>
  C5, what the code does: the test \<^verbatim>\<open>np.any(training_labels.shape == 0)\<close> is never true,
  so the outcome of a paint event depends on the live-fit checkbox alone. With live fit
  on, a fit task is submitted and the status text changes whatever the gathered labels
  are, an empty array included; with live fit off the event changes nothing.
\<close>

theorem data_change_ignores_empty_labels:
  assumes "get_training_features_and_labels self (data_dropdown self) False True
             = Inr (training_features, training_labels)"
  shows "(live_fit_checkbox self \<longrightarrow>
            on_data_change self
              = Inr (self\<lparr>status := ''Fitting model ...'',
                          executor := executor self @
                            [FitModelTask training_labels training_features (model_dropdown self)
                               (live_pred_checkbox self) False]\<rparr>)) \<and>
         (\<not> live_fit_checkbox self \<longrightarrow> on_data_change self = Inr self)"
  using assms
  by (simp add: on_data_change_def py_tuple_eq_int_def np_any_def Let_def)

lemma offscreen_training_data:
  "get_training_features_and_labels
     (small_app\<lparr>data_dropdown := ''Current Displayed Region'',
                corner_pixels := ((0, 0, 0), (0, 0, 2))\<rparr>)
     ''Current Displayed Region'' False True
   = Inr (\<lparr>shape = [0, 1], data = []\<rparr>, \<lparr>shape = [0, 2], data = []\<rparr>)"
  by (simp add: get_training_features_and_labels_def get_features_def get_mask_idx_def
      get_active_image_and_labels_def masked_rows_def np_getitem_def shape_last_def
      reshape_rows_def np_concatenate_axis1_def np_squeeze_def slice_range_def slice_clip_def
      small_app_def Let_def)

theorem data_change_ignores_empty_labels_witness:
  "get_training_features_and_labels
     (small_app\<lparr>data_dropdown := ''Current Displayed Region'',
                corner_pixels := ((0, 0, 0), (0, 0, 2))\<rparr>)
     ''Current Displayed Region'' False True
   = Inr (\<lparr>shape = [0, 1], data = []\<rparr>, \<lparr>shape = [0, 2], data = []\<rparr>) \<and>
   live_fit_checkbox (small_app\<lparr>data_dropdown := ''Current Displayed Region'',
                corner_pixels := ((0, 0, 0), (0, 0, 2))\<rparr>) \<and>
   status small_app = ''Ready'' \<and> executor small_app = [] \<and>
   on_data_change (small_app\<lparr>data_dropdown := ''Current Displayed Region'',
                corner_pixels := ((0, 0, 0), (0, 0, 2))\<rparr>)
   = Inr (small_app\<lparr>data_dropdown := ''Current Displayed Region'',
                corner_pixels := ((0, 0, 0), (0, 0, 2)),
                status := ''Fitting model ...'',
                executor := [FitModelTask \<lparr>shape = [0, 2], data = []\<rparr>
                               \<lparr>shape = [0, 1], data = []\<rparr> ''Random Forest'' True False]\<rparr>)"
proof -
  let ?S = "small_app\<lparr>data_dropdown := ''Current Displayed Region'',
                corner_pixels := ((0, 0, 0), (0, 0, 2))\<rparr>"
  have g: "get_training_features_and_labels ?S (data_dropdown ?S) False True
             = Inr (\<lparr>shape = [0, 1], data = []\<rparr>, \<lparr>shape = [0, 2], data = []\<rparr>)"
    using offscreen_training_data by simp
  have l: "live_fit_checkbox ?S" "status small_app = ''Ready''" "executor small_app = []"
    "model_dropdown ?S = ''Random Forest''" "live_pred_checkbox ?S" "executor ?S = []"
    by (simp_all add: small_app_def)
  from data_change_ignores_empty_labels [OF g] l
  have "on_data_change ?S
          = Inr (?S\<lparr>status := ''Fitting model ...'',
                   executor := [FitModelTask \<lparr>shape = [0, 2], data = []\<rparr>
                               \<lparr>shape = [0, 1], data = []\<rparr> ''Random Forest'' True False]\<rparr>)"
    by simp
  with offscreen_training_data l show ?thesis by simp
qed

section \<open>Background estimation writes\<close>












end
